theory Spec2Isabelle
  imports Complex_Main "HOL-Library.Sublist" "HOL-Library.Multiset"
begin

section \<open>Python values and exceptions\<close>

text \<open>
  The exceptions the routines of \<^verbatim>\<open>sumk_dft_tools.py\<close> can raise before and during
  the k-point sweep.  A failed \<^verbatim>\<open>assert\<close> is an \<open>AssertionError\<close> with its message,
  \<^verbatim>\<open>raise ValueError(msg, items)\<close> keeps the list of items it was given, a read of a
  local variable that no branch has bound is a \<open>NameError\<close> (Python's UnboundLocalError is
  a subclass of it) naming the variable, and a list read out of range is an \<open>IndexError\<close>.
\<close>

datatype error =
    AssertionError string
  | ValueError string "string list"
  | IOError string
  | NameError string
  | IndexError

text \<open>
  Python's \<^verbatim>\<open>x in (a, b, c)\<close> on a tuple of strings compares \<open>x\<close> with every member;
  \<^verbatim>\<open>x in s\<close> on a string \<open>s\<close> is the substring test.
\<close>

definition in_tuple :: "string \<Rightarrow> string list \<Rightarrow> bool" where
  "in_tuple x t = (x \<in> set t)"

definition in_str :: "string \<Rightarrow> string \<Rightarrow> bool" where
  "in_str x s = sublist x s"

text \<open>Truth value of an optional string: \<^verbatim>\<open>None\<close> and the empty string are false.\<close>

fun truthy :: "string option \<Rightarrow> bool" where
  "truthy None = False"
| "truthy (Some s) = (s \<noteq> [])"

section \<open>The frequency mesh and the SumkDFT object\<close>

datatype mesh_kind = MeshReFreq | MeshImFreq

record freq_mesh =
  kind :: mesh_kind
  w_min :: real
  w_max :: real
  n_points :: nat

text \<open>
  The attributes of \<^verbatim>\<open>self\<close> that the routines read.  \<open>Sigma_imp\<close> holds the meshes of the
  stored impurity self-energies (\<^verbatim>\<open>self.Sigma_imp[i].mesh\<close>), \<open>shells\<close> and \<open>corr_shells\<close>
  hold the \<^verbatim>\<open>'dim'\<close> entry of every shell, \<open>values_not_read\<close> is the attribute
  \<^verbatim>\<open>self.values_not_read\<close>, which no routine of \<^verbatim>\<open>sumk_dft_tools.py\<close> assigns.
  \<open>read_input_from_hdf\<close> is the method of the base class (its code is in
  \<^verbatim>\<open>sumk_dft.py\<close>): for a subgroup and the names to read it returns
  \<^verbatim>\<open>(subgroup_present, values_not_read)\<close>.
\<close>

record sumk =
  dft_code :: string
  Sigma_imp :: "freq_mesh list"
  self_mesh :: "freq_mesh option"
  values_not_read :: "string list"
  read_input_from_hdf :: "string \<Rightarrow> string list \<Rightarrow> bool \<times> string list"
  misc_data :: string
  parproj_data :: string
  bands_data :: string
  cont_data :: string
  symm_op :: int
  use_rotations :: bool
  n_k :: nat
  n_corr_shells :: nat
  n_shells :: nat
  corr_shells :: "nat list"
  shells :: "nat list"

section \<open>Validation before the sweep\<close>

subsection \<open>The projection scheme tag\<close>

text \<open>
  \<^verbatim>\<open>density_of_states\<close>, lines 119-124:
  \<^verbatim>\<open>
  if (proj_type != None):
      assert proj_type in ('wann', 'vasp', 'wien2k'), "..."
      if (proj_type != 'wann'):
          assert proj_type == self.dft_code, "..."
  \<close>
\<close>

definition dos_check_proj_type :: "sumk \<Rightarrow> string option \<Rightarrow> error + unit" where
  "dos_check_proj_type self proj_type =
     (case proj_type of
        None \<Rightarrow> Inr ()
      | Some p \<Rightarrow>
          if \<not> in_tuple p [''wann'', ''vasp'', ''wien2k'']
          then Inl (AssertionError ''proj_type must be either wann, vasp, wien2k'')
          else if p \<noteq> ''wann'' \<and> p \<noteq> dft_code self
          then Inl (AssertionError ''proj_type must be from the corresponding dft inputs.'')
          else Inr ())"

text \<open>
  \<^verbatim>\<open>spectral_contours\<close>, lines 522-523.  \<^verbatim>\<open>('wann')\<close> is a parenthesised string, not a
  tuple, so the test is Python's substring test:
  \<^verbatim>\<open>
  if (proj_type != None):
      assert proj_type in ('wann'), "'proj_type' must be 'wann' if not None"
  \<close>
\<close>

definition contours_check_proj_type :: "string option \<Rightarrow> error + unit" where
  "contours_check_proj_type proj_type =
     (case proj_type of
        None \<Rightarrow> Inr ()
      | Some p \<Rightarrow>
          if \<not> in_str p ''wann''
          then Inl (AssertionError ''proj_type must be wann if not None'')
          else Inr ())"

text \<open>
  \<^verbatim>\<open>spaghettis\<close>, lines 707-710:
  \<^verbatim>\<open>
  if (proj_type != None):
      assert proj_type in ('wann', 'wien2k'), "..."
      if (proj_type != 'wann'):
          assert proj_type == self.dft_code, "..."
  \<close>
\<close>

definition spaghettis_check_proj_type :: "sumk \<Rightarrow> string option \<Rightarrow> error + unit" where
  "spaghettis_check_proj_type self proj_type =
     (case proj_type of
        None \<Rightarrow> Inr ()
      | Some p \<Rightarrow>
          if \<not> in_tuple p [''wann'', ''wien2k'']
          then Inl (AssertionError ''proj_type must be either wann, wien2k'')
          else if p \<noteq> ''wann'' \<and> p \<noteq> dft_code self
          then Inl (AssertionError ''proj_type must be from the corresponding dft inputs.'')
          else Inr ())"

subsection \<open>Required archive entries\<close>

text \<open>
  Every read of the archive is followed by the same test (lines 150-154, 376-382, 385-389,
  527-531, 712-716, 970-974):
  \<^verbatim>\<open>
  subgroup_present, values_not_read = self.read_input_from_hdf(subgrp=..., things_to_read=...)
  if len(values_not_read) > 0 and mpi.is_master_node:
      raise ValueError('ERROR: One or more necessary SumK input properties have not '
                       'been found in the given h5 archive:', self.values_not_read)
  \<close>
  \<^verbatim>\<open>mpi.is_master_node\<close> is the function itself, not a call of it, so it counts as true
  on every worker.  The list given to the exception is the attribute
  \<^verbatim>\<open>self.values_not_read\<close>, not the local \<^verbatim>\<open>values_not_read\<close> the read returned.
\<close>

definition missing_msg :: string where
  "missing_msg = ''ERROR: One or more necessary SumK input properties have not been found in the given h5 archive:''"

definition read_required :: "sumk \<Rightarrow> string \<Rightarrow> string list \<Rightarrow> error + unit" where
  "read_required self subgrp things_to_read =
     (let (subgroup_present, values_not_read_local) = read_input_from_hdf self subgrp things_to_read
      in if length values_not_read_local > 0 \<and> True
         then Inl (ValueError missing_msg (values_not_read self))
         else Inr ())"

text \<open>
  \<^verbatim>\<open>load_parproj\<close>, lines 371-389: the projectors are read from the bands subgroup for
  \<^verbatim>\<open>data_type == 'band'\<close> and from the partial-projector subgroup otherwise, then the
  rotation matrices from the partial-projector subgroup.
\<close>

definition load_parproj :: "sumk \<Rightarrow> string option \<Rightarrow> error + unit" where
  "load_parproj self data_type =
     (case read_required self
             (if data_type = Some ''band'' then bands_data self else parproj_data self)
             [''n_parproj'', ''proj_mat_all''] of
        Inl e \<Rightarrow> Inl e
      | Inr _ \<Rightarrow>
          read_required self (parproj_data self) [''rot_mat_all'', ''rot_mat_all_time_inv''])"

subsection \<open>The frequency mesh\<close>

text \<open>
  Lines 126-140 of \<^verbatim>\<open>density_of_states\<close>, repeated as lines 535-549 of
  \<^verbatim>\<open>spectral_contours\<close> and lines 722-736 of \<^verbatim>\<open>spaghettis\<close>:
  \<^verbatim>\<open>
  if (with_Sigma):
      assert isinstance(self.Sigma_imp[0].mesh, MeshReFreq), "..."
      mesh = self.Sigma_imp[0].mesh
  elif mesh is not None:
      assert isinstance(mesh, MeshReFreq), "mesh must be of form MeshReFreq"
      if broadening is None:
          broadening = 0.001
  elif self.mesh is not None:
      assert isinstance(self.mesh, MeshReFreq), "self.mesh must be of form MeshReFreq"
      mesh = self.mesh
      if broadening is None:
          broadening = 0.001
  else:
      assert 0, "ReFreqMesh input required for calculations without real frequency self-energy"
  \<close>
  The result is the pair of \<^verbatim>\<open>mesh\<close> and \<^verbatim>\<open>broadening\<close> that the routine passes on to
  \<^verbatim>\<open>lattice_gf\<close>.
\<close>

definition default_broadening :: "real option \<Rightarrow> real option" where
  "default_broadening broadening =
     (case broadening of None \<Rightarrow> Some (1 / 1000) | Some b \<Rightarrow> Some b)"

definition select_mesh ::
  "sumk \<Rightarrow> bool \<Rightarrow> freq_mesh option \<Rightarrow> real option \<Rightarrow> error + (freq_mesh \<times> real option)" where
  "select_mesh self with_Sigma mesh broadening =
     (if with_Sigma then
        (case Sigma_imp self of
           [] \<Rightarrow> Inl IndexError
         | s # _ \<Rightarrow>
             if kind s \<noteq> MeshReFreq
             then Inl (AssertionError ''SumkDFT.mesh must be real if with_Sigma is True'')
             else Inr (s, broadening))
      else
        (case mesh of
           Some m \<Rightarrow>
             if kind m \<noteq> MeshReFreq
             then Inl (AssertionError ''mesh must be of form MeshReFreq'')
             else Inr (m, default_broadening broadening)
         | None \<Rightarrow>
            (case self_mesh self of
               Some m \<Rightarrow>
                 if kind m \<noteq> MeshReFreq
                 then Inl (AssertionError ''self.mesh must be of form MeshReFreq'')
                 else Inr (m, default_broadening broadening)
             | None \<Rightarrow>
                 Inl (AssertionError
                   ''ReFreqMesh input required for calculations without real frequency self-energy''))))"

subsection \<open>Sequencing of the checks\<close>

text \<open>A raised exception ends the routine: the later steps run only after a success.\<close>

definition and_then :: "error + 'a \<Rightarrow> ('a \<Rightarrow> error + 'b) \<Rightarrow> error + 'b" where
  "and_then r f = (case r of Inl e \<Rightarrow> Inl e | Inr v \<Rightarrow> f v)"

text \<open>
  \<^verbatim>\<open>mesh_val = numpy.linspace(mesh.w_min, mesh.w_max, len(mesh))\<close> followed by
  \<^verbatim>\<open>mesh_val[0]\<close> and \<^verbatim>\<open>mesh_val[-1]\<close> (lines 141-144, 550-553, 737-740, 842-845):
  reading the first point of an empty mesh is an IndexError.
\<close>

definition mesh_val :: "freq_mesh \<Rightarrow> real list" where
  "mesh_val m =
     map (\<lambda>i. if n_points m = 1 then w_min m
              else w_min m + real i * (w_max m - w_min m) / real (n_points m - 1))
         [0..<n_points m]"

definition mesh_bounds :: "freq_mesh \<Rightarrow> error + (real \<times> real)" where
  "mesh_bounds m =
     (if mesh_val m = [] then Inl IndexError
      else Inr (hd (mesh_val m) - 1 / 1000, last (mesh_val m) + 1 / 1000))"

subsection \<open>What each routine does before it starts its sweep\<close>

text \<open>
  \<^verbatim>\<open>density_of_states\<close>, lines 119-175: the scheme tag, the mesh, the occupations when
  \<^verbatim>\<open>dosocc\<close> is set, and the partial projectors for \<^verbatim>\<open>'wien2k'\<close>.  The result is the mesh
  and the broadening given to \<^verbatim>\<open>lattice_gf\<close> in the sweep.
\<close>

definition dos_preamble ::
  "sumk \<Rightarrow> real option \<Rightarrow> freq_mesh option \<Rightarrow> bool \<Rightarrow> string option \<Rightarrow> bool
     \<Rightarrow> error + (freq_mesh \<times> real option)" where
  "dos_preamble self broadening mesh with_Sigma proj_type dosocc =
     and_then (dos_check_proj_type self proj_type) (\<lambda>_.
     and_then (select_mesh self with_Sigma mesh broadening) (\<lambda>(m, b).
     and_then (mesh_bounds m) (\<lambda>_.
     and_then (if dosocc then read_required self (misc_data self) [''occik''] else Inr ()) (\<lambda>_.
     and_then (if proj_type = Some ''wien2k'' then load_parproj self None else Inr ()) (\<lambda>_.
     Inr (m, b))))))"

text \<open>
  \<^verbatim>\<open>spectral_contours\<close>, lines 522-558: the scheme tag, the contour data, the mesh, and for
  \<^verbatim>\<open>FS\<close> the spacing \<^verbatim>\<open>abs(mesh_val[1]-mesh_val[0])\<close> of the first two mesh points.
\<close>

definition contours_things_to_read :: "string list" where
  "contours_things_to_read =
     [''n_k'', ''bmat'', ''BZ_n_k'', ''BZ_iknr'', ''BZ_vkl'', ''n_orbitals'', ''proj_mat'', ''hopping'']"

definition contours_preamble ::
  "sumk \<Rightarrow> real option \<Rightarrow> freq_mesh option \<Rightarrow> bool \<Rightarrow> bool \<Rightarrow> string option
     \<Rightarrow> error + (freq_mesh \<times> real option)" where
  "contours_preamble self broadening mesh FS with_Sigma proj_type =
     and_then (contours_check_proj_type proj_type) (\<lambda>_.
     and_then (read_required self (cont_data self) contours_things_to_read) (\<lambda>_.
     and_then (select_mesh self with_Sigma mesh broadening) (\<lambda>(m, b).
     and_then (mesh_bounds m) (\<lambda>_.
     and_then (if FS \<and> length (mesh_val m) < 2 then Inl IndexError else Inr ()) (\<lambda>_.
     Inr (m, b))))))"

text \<open>
  \<^verbatim>\<open>spaghettis\<close>, lines 707-747: the scheme tag, the band data, the partial projectors of
  the band data for \<^verbatim>\<open>'wien2k'\<close>, and the mesh.
\<close>

definition spaghettis_things_to_read :: "string list" where
  "spaghettis_things_to_read = [''n_k'', ''n_orbitals'', ''proj_mat'', ''hopping'']"

definition spaghettis_preamble ::
  "sumk \<Rightarrow> real option \<Rightarrow> freq_mesh option \<Rightarrow> bool \<Rightarrow> string option
     \<Rightarrow> error + (freq_mesh \<times> real option)" where
  "spaghettis_preamble self broadening mesh with_Sigma proj_type =
     and_then (spaghettis_check_proj_type self proj_type) (\<lambda>_.
     and_then (read_required self (bands_data self) spaghettis_things_to_read) (\<lambda>_.
     and_then (if proj_type = Some ''wien2k'' then load_parproj self (Some ''band'') else Inr ()) (\<lambda>_.
     and_then (select_mesh self with_Sigma mesh broadening) (\<lambda>(m, b).
     and_then (mesh_bounds m) (\<lambda>_.
     Inr (m, b))))))"

subsection \<open>The shell list of the k-resolved routines\<close>

text \<open>
  \<^verbatim>\<open>gen_Akw\<close>, lines 873-877:
  \<^verbatim>\<open>
  for ish in shell_list:
      if(ish > n_shells) or (ish < 0):
          raise IOError("indices in shell_list input do not correspond ...")
  \<close>
  \<open>n_shells\<close> is \<open>None\<close> when neither scheme branch has bound the local variable.
\<close>

fun check_shell_list :: "nat option \<Rightarrow> int list \<Rightarrow> error + unit" where
  "check_shell_list n [] = Inr ()"
| "check_shell_list None (ish # rest) = Inl (NameError ''n_shells'')"
| "check_shell_list (Some n) (ish # rest) =
     (if ish > int n \<or> ish < 0
      then Inl (IOError ''indices in shell_list input do not correspond to existing self.shells indices'')
      else check_shell_list (Some n) rest)"

text \<open>
  Line 880, \<^verbatim>\<open>[mpi.report('%s : %s '%(ish, self.shells[ish])) for ish in shell_list]\<close>:
  a Python list read, which accepts \<open>-len \<le> ish < len\<close>.
\<close>

fun report_shell_list :: "nat list \<Rightarrow> int list \<Rightarrow> error + unit" where
  "report_shell_list shs [] = Inr ()"
| "report_shell_list shs (ish # rest) =
     (if - int (length shs) \<le> ish \<and> ish < int (length shs)
      then report_shell_list shs rest else Inl IndexError)"

text \<open>
  What lines 860-898 leave behind for the sweep: the number of projected shells, the shell
  list, the dimensions list and the kind of shells (\<^verbatim>\<open>shells_type\<close>).
\<close>

record akw_setup =
  as_n_shells :: nat
  as_shell_list :: "int list"
  as_dims :: "nat list"
  as_shells_type :: string

text \<open>
  \<^verbatim>\<open>gen_Akw\<close>, lines 860-898.  The scheme branches bind \<^verbatim>\<open>n_shells\<close>, \<^verbatim>\<open>dims\<close> and
  \<^verbatim>\<open>shells_type\<close> only for \<^verbatim>\<open>'wann'\<close> and \<^verbatim>\<open>'wien2k'\<close>; the loop of lines 888-898 reads
  \<^verbatim>\<open>shell_list[ish]\<close> and \<^verbatim>\<open>dims[ish]\<close> for every \<open>ish < n_shells\<close>.  The result is \<open>None\<close>
  when \<^verbatim>\<open>if (proj_type)\<close> is false and nothing is set up.
\<close>

definition scheme_shells :: "sumk \<Rightarrow> string \<Rightarrow> error + (nat \<times> nat list \<times> string) option" where
  "scheme_shells self p =
     (if p = ''wann'' then
        (if n_corr_shells self > length (corr_shells self) then Inl IndexError
         else Inr (Some (n_corr_shells self, take (n_corr_shells self) (corr_shells self), ''corr'')))
      else if p = ''wien2k'' then
        (if n_shells self > length (shells self) then Inl IndexError
         else Inr (Some (n_shells self, take (n_shells self) (shells self), ''all'')))
      else Inr None)"

definition gen_Akw_setup ::
  "sumk \<Rightarrow> string option \<Rightarrow> int list option \<Rightarrow> error + akw_setup option" where
  "gen_Akw_setup self proj_type shell_list =
     (if \<not> truthy proj_type then Inr None
      else
        and_then (scheme_shells self (the proj_type)) (\<lambda>bound.
        and_then
          (case shell_list of
             Some sl \<Rightarrow>
               and_then (check_shell_list (map_option fst bound) sl) (\<lambda>_.
               and_then (report_shell_list (shells self) sl) (\<lambda>_.
               Inr (length sl, sl)))
           | None \<Rightarrow>
              (case bound of
                 None \<Rightarrow> Inl (NameError ''n_shells'')
               | Some (n, _, _) \<Rightarrow> Inr (n, map int [0..<n])))
          (\<lambda>(n, sl).
             if n = 0 then
               Inr (Some \<lparr>as_n_shells = n, as_shell_list = sl,
                          as_dims = (case bound of None \<Rightarrow> [] | Some (_, ds, _) \<Rightarrow> ds),
                          as_shells_type = (case bound of None \<Rightarrow> [] | Some (_, _, t) \<Rightarrow> t)\<rparr>)
             else
               (case bound of
                  None \<Rightarrow> Inl (NameError ''dims'')
                | Some (_, ds, t) \<Rightarrow>
                    if n > length ds then Inl IndexError
                    else Inr (Some \<lparr>as_n_shells = n, as_shell_list = sl,
                                    as_dims = ds, as_shells_type = t\<rparr>)))))"

section \<open>Green's functions and the data of the sweep\<close>

text \<open>
  The data array of one block of a Green's function, \<^verbatim>\<open>gf.data[iom, i, j]\<close>, is a complex
  number for every frequency index and orbital pair.  A \<^verbatim>\<open>BlockGf\<close> holds one such block
  per block name; the block names of every Green's function of a run are the spin block
  names \<^verbatim>\<open>spn = self.spin_block_names[self.SO]\<close>.  Arithmetic is exact (complex and real
  numbers), where the program computes in floating point.
\<close>

type_synonym gf = "nat \<times> nat \<times> nat \<Rightarrow> complex"

type_synonym block_gf = "string \<Rightarrow> gf"

text \<open>\<^verbatim>\<open>G.zero()\<close>, \<^verbatim>\<open>G += H\<close> and \<^verbatim>\<open>G *= w\<close> on block Green's functions.\<close>

definition bgf_zero :: block_gf where
  "bgf_zero = (\<lambda>bname idx. 0)"

definition bgf_add :: "block_gf \<Rightarrow> block_gf \<Rightarrow> block_gf" where
  "bgf_add G H = (\<lambda>bname idx. G bname idx + H bname idx)"

definition bgf_scale :: "real \<Rightarrow> block_gf \<Rightarrow> block_gf" where
  "bgf_scale w G = (\<lambda>bname idx. G bname idx * complex_of_real w)"

text \<open>
  \<^verbatim>\<open>for bname, gf in G: G[bname] << body(bname, gf)\<close>, and likewise the loops that update a
  dictionary keyed by the block names: the blocks are visited in order, each visit
  replaces the entry of its name.
\<close>

definition for_blocks :: "string list \<Rightarrow> (string \<Rightarrow> 'a \<Rightarrow> 'a) \<Rightarrow> (string \<Rightarrow> 'a) \<Rightarrow> (string \<Rightarrow> 'a)" where
  "for_blocks names body G = fold (\<lambda>bname G'. G'(bname := body bname (G' bname))) names G"

text \<open>
  \<^verbatim>\<open>for ish in range(n): G_loc[ish] = body(ish, G_loc[ish])\<close> on the Python list
  \<^verbatim>\<open>G_loc\<close>.
\<close>

definition for_shells :: "nat \<Rightarrow> (nat \<Rightarrow> 'a \<Rightarrow> 'a) \<Rightarrow> 'a list \<Rightarrow> 'a list" where
  "for_shells n body G = fold (\<lambda>ish G'. G'[ish := body ish (G' ! ish)]) [0..<n] G"

text \<open>
  What the sweeps read from \<^verbatim>\<open>self\<close>.  \<open>lattice_gf\<close>, \<open>downfold\<close>, \<open>rotloc\<close> and the two
  \<open>symmetrize\<close> are methods whose code is not in \<^verbatim>\<open>sumk_dft_tools.py\<close>; they are taken as
  they are called:
  \<^item> \<open>lattice_gf ik\<close> is \<^verbatim>\<open>self.lattice_gf(ik=ik, mu=mu, broadening=broadening, mesh=mesh,
    with_Sigma=with_Sigma, with_dc=with_dc)\<close>, whose other arguments are the same for every
    k-point of a sweep;
  \<^item> \<open>downfold ik ish bname gf_to_downfold gf_inp shells ir\<close> is \<^verbatim>\<open>self.downfold\<close> with its
    arguments in the order of its calls;
  \<^item> \<open>rotloc ish gf shells\<close> is \<^verbatim>\<open>self.rotloc(ish, gf, direction='toLocal', shells=shells)\<close>;
  \<^item> \<open>density gf\<close> is \<^verbatim>\<open>gf.density()\<close>;
  \<^item> \<open>occik bname ik (i, j)\<close> is \<^verbatim>\<open>self.occik[bname][ik][0, i, j]\<close>;
  \<^item> \<open>n_orbitals ik bname\<close> is the size of the block \<open>bname\<close> of the lattice Green's
    function at k-point \<open>ik\<close>, and \<open>csc_dim\<close> is \<^verbatim>\<open>self.proj_mat_csc.shape[2]\<close>.
\<close>

record kdata =
  spn :: "string list"
  bz_weights :: "nat \<Rightarrow> real"
  lattice_gf :: "nat \<Rightarrow> block_gf"
  n_orbitals :: "nat \<Rightarrow> string \<Rightarrow> nat"
  occik :: "string \<Rightarrow> nat \<Rightarrow> nat \<times> nat \<Rightarrow> real"
  downfold :: "nat \<Rightarrow> nat \<Rightarrow> string \<Rightarrow> gf \<Rightarrow> gf \<Rightarrow> string \<Rightarrow> nat option \<Rightarrow> gf"
  n_parproj :: "nat \<Rightarrow> nat"
  rotloc :: "int \<Rightarrow> gf \<Rightarrow> string \<Rightarrow> gf"
  symmcorr_symmetrize :: "block_gf list \<Rightarrow> block_gf list"
  symmpar_symmetrize :: "block_gf list \<Rightarrow> block_gf list"
  density :: "gf \<Rightarrow> nat \<times> nat \<Rightarrow> complex"
  csc_dim :: nat

section \<open>The projection dispatcher\<close>

text \<open>
  \<^verbatim>\<open>proj_type_G_loc\<close>, lines 317-355:
  \<^verbatim>\<open>
  G_proj = G_inp.copy()
  if (proj_type == 'wann'):
     for bname, gf in G_proj:
        G_proj[bname] << self.downfold(ik, ish, bname, G_latt[bname], gf)
  elif (proj_type == 'vasp'):
     for bname, gf in G_latt:
        G_proj[bname] << self.downfold(ik, ish, bname, gf, G_proj[bname], shells='csc')
  elif (proj_type == 'wien2k'):
     tmp = G_proj.copy()
     for ir in range(self.n_parproj[ish]):
        tmp.zero()
        for bname, gf in tmp:
           tmp[bname] << self.downfold(ik, ish, bname, G_latt[bname], gf, shells='all', ir=ir)
        G_proj += tmp
  return G_proj
  \<close>
\<close>

definition proj_type_G_loc ::
  "kdata \<Rightarrow> block_gf \<Rightarrow> block_gf \<Rightarrow> nat \<Rightarrow> nat \<Rightarrow> string option \<Rightarrow> block_gf" where
  "proj_type_G_loc L G_latt G_inp ik ish proj_type =
     (let G_proj = G_inp in
      if proj_type = Some ''wann'' then
        for_blocks (spn L)
          (\<lambda>bname gf. downfold L ik ish bname (G_latt bname) gf ''corr'' None) G_proj
      else if proj_type = Some ''vasp'' then
        for_blocks (spn L)
          (\<lambda>bname gf. downfold L ik ish bname (G_latt bname) gf ''csc'' None) G_proj
      else if proj_type = Some ''wien2k'' then
        fold (\<lambda>ir G_proj'.
                bgf_add G_proj'
                  (for_blocks (spn L)
                     (\<lambda>bname gf. downfold L ik ish bname (G_latt bname) gf ''all'' (Some ir))
                     bgf_zero))
             [0..<n_parproj L ish] G_proj
      else G_proj)"

section \<open>The sum-reduction over the workers\<close>

text \<open>
  \<^verbatim>\<open>mpi.slice_array(ikarray)\<close> gives every worker its part of the k-point indices; the
  parts of all workers are the list \<open>slices\<close>, one list of indices per worker.
  \<^verbatim>\<open>mpi.all_reduce(x)\<close> is the element-wise sum of the workers' values of \<open>x\<close>, the same on
  every worker.
\<close>

definition all_reduce :: "('i \<Rightarrow> 'a::comm_monoid_add) list \<Rightarrow> 'i \<Rightarrow> 'a" where
  "all_reduce locals = (\<lambda>idx. \<Sum>x\<leftarrow>locals. x idx)"

section \<open>density\_of\_states\<close>

text \<open>
  Lines 215-217, the mask of the occupied states:
  \<^verbatim>\<open>
  for bname, gf in G_latt_w:
      G_latt_w[bname].data[:, :, :] *= self.occik[bname][ik]
  \<close>
\<close>

definition mask_occ :: "kdata \<Rightarrow> nat \<Rightarrow> block_gf \<Rightarrow> block_gf" where
  "mask_occ L ik G =
     for_blocks (spn L)
       (\<lambda>bname gf. (\<lambda>(iom, i, j). gf (iom, i, j) * complex_of_real (occik L bname ik (i, j)))) G"

text \<open>\<^verbatim>\<open>gf.data.imag.trace(axis1=1, axis2=2)\<close> for a block of \<open>n\<close> orbitals.\<close>

definition imag_trace :: "nat \<Rightarrow> gf \<Rightarrow> nat \<Rightarrow> real" where
  "imag_trace n gf iom = (\<Sum>i\<leftarrow>[0..<n]. Im (gf (iom, i, i)))"

text \<open>
  One pass of the loop of lines 210-227 for the k-point \<open>ik\<close>, on the worker's \<^verbatim>\<open>DOS\<close> and
  \<^verbatim>\<open>G_loc\<close>; \<open>dos_G_latt_w\<close> is the weighted, and for \<^verbatim>\<open>dosocc\<close> masked, lattice Green's function
  of lines 211-217:
  \<^verbatim>\<open>
  G_latt_w = self.lattice_gf(ik=ik, ...)
  G_latt_w *= self.bz_weights[ik]
  if (dosocc):
    for bname, gf in G_latt_w:
      G_latt_w[bname].data[:, :, :] *= self.occik[bname][ik]
  for bname, gf in G_latt_w:
      DOS[bname] -= gf.data.imag.trace(axis1=1, axis2=2)/numpy.pi
  if (proj_type != None):
      for ish in range(n_shells):
          tmp = G_loc[ish].copy()
          tmp.zero()
          tmp << self.proj_type_G_loc(G_latt_w, tmp, ik, ish, proj_type)
          G_loc[ish] += tmp
  \<close>
\<close>

definition dos_G_latt_w :: "kdata \<Rightarrow> bool \<Rightarrow> nat \<Rightarrow> block_gf" where
  "dos_G_latt_w L dosocc ik =
     (let G_latt_w = bgf_scale (bz_weights L ik) (lattice_gf L ik)
      in if dosocc then mask_occ L ik G_latt_w else G_latt_w)"

definition dos_k_step ::
  "kdata \<Rightarrow> string option \<Rightarrow> bool \<Rightarrow> nat \<Rightarrow> nat
     \<Rightarrow> (string \<Rightarrow> nat \<Rightarrow> real) \<times> block_gf list \<Rightarrow> (string \<Rightarrow> nat \<Rightarrow> real) \<times> block_gf list" where
  "dos_k_step L proj_type dosocc n_sh ik st =
     (let (DOS, G_loc) = st;
          G_latt_w = dos_G_latt_w L dosocc ik;
          DOS = for_blocks (spn L)
                  (\<lambda>bname d. (\<lambda>iom. d iom - imag_trace (n_orbitals L ik bname) (G_latt_w bname) iom / pi))
                  DOS;
          G_loc = (if proj_type \<noteq> None then
                     for_shells n_sh
                       (\<lambda>ish g. bgf_add g (proj_type_G_loc L G_latt_w bgf_zero ik ish proj_type))
                       G_loc
                   else G_loc)
      in (DOS, G_loc))"

text \<open>
  The worker's sweep: \<^verbatim>\<open>DOS\<close> and \<^verbatim>\<open>G_loc\<close> start from zero (lines 190-206) and the loop
  runs over the worker's part \<open>ks\<close> of the k-points.
\<close>

definition dos_sweep ::
  "kdata \<Rightarrow> string option \<Rightarrow> bool \<Rightarrow> nat \<Rightarrow> nat list
     \<Rightarrow> (string \<Rightarrow> nat \<Rightarrow> real) \<times> block_gf list" where
  "dos_sweep L proj_type dosocc n_sh ks =
     fold (dos_k_step L proj_type dosocc n_sh) ks (\<lambda>bname iom. 0, replicate n_sh bgf_zero)"

text \<open>
  Lines 231-236: \<^verbatim>\<open>DOS[bname] = mpi.all_reduce(DOS[bname])\<close> for every block and
  \<^verbatim>\<open>G_loc[ish] << mpi.all_reduce(G_loc[ish])\<close> for every shell.
\<close>

definition dos_reduced_DOS ::
  "kdata \<Rightarrow> string option \<Rightarrow> bool \<Rightarrow> nat \<Rightarrow> nat list list \<Rightarrow> string \<Rightarrow> nat \<Rightarrow> real" where
  "dos_reduced_DOS L proj_type dosocc n_sh slices =
     (\<lambda>bname. all_reduce (map (\<lambda>ks. fst (dos_sweep L proj_type dosocc n_sh ks) bname) slices))"

definition dos_reduced_G_loc ::
  "kdata \<Rightarrow> string option \<Rightarrow> bool \<Rightarrow> nat \<Rightarrow> nat list list \<Rightarrow> block_gf list" where
  "dos_reduced_G_loc L proj_type dosocc n_sh slices =
     map (\<lambda>ish bname.
            all_reduce (map (\<lambda>ks. (snd (dos_sweep L proj_type dosocc n_sh ks) ! ish) bname) slices))
         [0..<n_sh]"

text \<open>
  Lines 237-248, on the reduced \<^verbatim>\<open>G_loc\<close> and only for a scheme other than \<^verbatim>\<open>'vasp'\<close>:
  \<^verbatim>\<open>
  if ((proj_type != 'vasp') and (proj_type != 'elk')):
    if self.symm_op != 0:
        if proj_type == 'wann':
            G_loc = self.symmcorr.symmetrize(G_loc)
        else:
            G_loc = self.symmpar.symmetrize(G_loc)
    if self.use_rotations:
        for ish in range(n_shells):
            for bname, gf in G_loc[ish]:
                G_loc[ish][bname] << self.rotloc(ish, gf, direction='toLocal', shells=shells_type)
  \<close>
\<close>

definition rotate_all :: "kdata \<Rightarrow> nat \<Rightarrow> (nat \<Rightarrow> int) \<Rightarrow> string \<Rightarrow> block_gf list \<Rightarrow> block_gf list" where
  "rotate_all L n_sh shell_of shells_type G_loc =
     for_shells n_sh
       (\<lambda>ish g. for_blocks (spn L) (\<lambda>bname gf. rotloc L (shell_of ish) gf shells_type) g) G_loc"

definition dos_shells_type :: "string option \<Rightarrow> string" where
  "dos_shells_type proj_type =
     (if proj_type = Some ''wann'' then ''corr''
      else if proj_type = Some ''vasp'' then ''csc'' else ''all'')"

definition dos_corrections ::
  "sumk \<Rightarrow> kdata \<Rightarrow> string option \<Rightarrow> nat \<Rightarrow> block_gf list \<Rightarrow> block_gf list" where
  "dos_corrections self L proj_type n_sh G_loc =
     (if proj_type \<noteq> Some ''vasp'' \<and> proj_type \<noteq> Some ''elk'' then
        (let G_loc = (if symm_op self \<noteq> 0 then
                        (if proj_type = Some ''wann'' then symmcorr_symmetrize L G_loc
                         else symmpar_symmetrize L G_loc)
                      else G_loc)
         in if use_rotations self
            then rotate_all L n_sh int (dos_shells_type proj_type) G_loc
            else G_loc)
      else G_loc)"

text \<open>
  Lines 250-254, the projected densities of states of a shell with \<open>n\<close> orbitals:
  \<^verbatim>\<open>
  DOSproj[ish][bname] = -gf.data.imag.trace(axis1=1, axis2=2) / numpy.pi
  DOSproj_orb[ish][bname][:, :, :] += (1.0j*(gf-gf.conjugate().transpose())/2.0/numpy.pi).data[:, :, :]
  \<close>
\<close>

definition DOSproj_of :: "nat \<Rightarrow> gf \<Rightarrow> nat \<Rightarrow> real" where
  "DOSproj_of n gf = (\<lambda>iom. - imag_trace n gf iom / pi)"

definition DOSproj_orb_of :: "gf \<Rightarrow> gf" where
  "DOSproj_orb_of gf =
     (\<lambda>(iom, i, j). 0 + \<i> * (gf (iom, i, j) - cnj (gf (iom, j, i))) / 2 / complex_of_real pi)"

text \<open>The matrix trace of a block of \<open>n\<close> orbitals at one frequency.\<close>

definition trace :: "nat \<Rightarrow> gf \<Rightarrow> nat \<Rightarrow> complex" where
  "trace n gf iom = (\<Sum>i\<leftarrow>[0..<n]. gf (iom, i, i))"

text \<open>
  Lines 158-175: the number of shells and their dimensions for the scheme.  Without a
  scheme \<^verbatim>\<open>n_shells\<close> is 1 and the projected outputs stay empty dictionaries.
\<close>

definition dos_shells :: "sumk \<Rightarrow> kdata \<Rightarrow> string option \<Rightarrow> error + (nat \<times> nat list)" where
  "dos_shells self L proj_type =
     (if proj_type = Some ''vasp'' then Inr (1, [csc_dim L])
      else
        (case proj_type of
           None \<Rightarrow> Inr (1, [])
         | Some p \<Rightarrow>
            and_then (scheme_shells self p) (\<lambda>bound.
              case bound of None \<Rightarrow> Inr (1, []) | Some (n, ds, t) \<Rightarrow> Inr (n, ds))))"

text \<open>
  \<^verbatim>\<open>density_of_states\<close> as a whole (without the files it writes): the checks, then on every
  worker the sweep over its part of \<open>slices\<close>, the reduction, the corrections, and the
  three results \<^verbatim>\<open>DOS\<close>, \<^verbatim>\<open>DOSproj\<close> and \<^verbatim>\<open>DOSproj_orb\<close>.
\<close>

definition density_of_states ::
  "sumk \<Rightarrow> kdata \<Rightarrow> real option \<Rightarrow> freq_mesh option \<Rightarrow> bool \<Rightarrow> string option \<Rightarrow> bool
     \<Rightarrow> nat list list
     \<Rightarrow> error + ((string \<Rightarrow> nat \<Rightarrow> real) \<times> (string \<rightharpoonup> nat \<Rightarrow> real) list \<times> (string \<rightharpoonup> gf) list)" where
  "density_of_states self L broadening mesh with_Sigma proj_type dosocc slices =
     and_then (dos_preamble self broadening mesh with_Sigma proj_type dosocc) (\<lambda>_.
     and_then (dos_shells self L proj_type) (\<lambda>(n_sh, dims).
       let DOS = dos_reduced_DOS L proj_type dosocc n_sh slices
       in if proj_type = None then Inr (DOS, replicate n_sh Map.empty, replicate n_sh Map.empty)
          else
           (let G_loc = dos_corrections self L proj_type n_sh
                          (dos_reduced_G_loc L proj_type dosocc n_sh slices)
            in Inr (DOS,
                    map (\<lambda>ish bname. if bname \<in> set (spn L)
                                      then Some (DOSproj_of (dims ! ish) ((G_loc ! ish) bname))
                                      else None) [0..<n_sh],
                    map (\<lambda>ish bname. if bname \<in> set (spn L)
                                      then Some (DOSproj_orb_of ((G_loc ! ish) bname))
                                      else None) [0..<n_sh]))))"

section \<open>partial\_charges\<close>

text \<open>
  Lines 999-1004 for one shell, from the shell's \<^verbatim>\<open>G_loc[ish]\<close> to its new value; one
  pass of the loop over \<^verbatim>\<open>ir\<close> acts on the pair of \<^verbatim>\<open>tmp\<close> and \<^verbatim>\<open>G_loc[ish]\<close>:
  \<^verbatim>\<open>
  tmp = G_loc[ish].copy()
  for ir in range(self.n_parproj[ish]):
      for bname, gf in tmp:
          tmp[bname] << self.downfold(ik, ish, bname, G_latt_iw[bname], gf, shells='all', ir=ir)
      G_loc[ish] += tmp
  \<close>
\<close>

definition pc_ir_step ::
  "kdata \<Rightarrow> block_gf \<Rightarrow> nat \<Rightarrow> nat \<Rightarrow> nat \<Rightarrow> block_gf \<times> block_gf \<Rightarrow> block_gf \<times> block_gf" where
  "pc_ir_step L G_latt_iw ik ish ir st =
     (let (tmp, G_loc_ish) = st;
          tmp = for_blocks (spn L)
                  (\<lambda>bname gf. downfold L ik ish bname (G_latt_iw bname) gf ''all'' (Some ir))
                  tmp
      in (tmp, bgf_add G_loc_ish tmp))"

definition pc_shell_step :: "kdata \<Rightarrow> block_gf \<Rightarrow> nat \<Rightarrow> nat \<Rightarrow> block_gf \<Rightarrow> block_gf" where
  "pc_shell_step L G_latt_iw ik ish g =
     snd (fold (pc_ir_step L G_latt_iw ik ish) [0..<n_parproj L ish] (g, g))"

text \<open>Lines 994-1004, one k-point, and the worker's sweep from \<^verbatim>\<open>G_loc\<close> zero.\<close>

definition pc_k_step :: "kdata \<Rightarrow> nat \<Rightarrow> nat \<Rightarrow> block_gf list \<Rightarrow> block_gf list" where
  "pc_k_step L n_sh ik G_loc =
     (let G_latt_iw = bgf_scale (bz_weights L ik) (lattice_gf L ik)
      in for_shells n_sh (\<lambda>ish g. pc_shell_step L G_latt_iw ik ish g) G_loc)"

definition pc_sweep :: "kdata \<Rightarrow> nat \<Rightarrow> nat list \<Rightarrow> block_gf list" where
  "pc_sweep L n_sh ks = fold (pc_k_step L n_sh) ks (replicate n_sh bgf_zero)"

text \<open>Lines 1007-1008: \<^verbatim>\<open>G_loc[ish] << mpi.all_reduce(G_loc[ish])\<close>.\<close>

definition pc_reduced_G_loc :: "kdata \<Rightarrow> nat \<Rightarrow> nat list list \<Rightarrow> block_gf list" where
  "pc_reduced_G_loc L n_sh slices =
     map (\<lambda>ish bname. all_reduce (map (\<lambda>ks. (pc_sweep L n_sh ks ! ish) bname) slices)) [0..<n_sh]"

text \<open>Lines 1012-1018: the corrections of \<^verbatim>\<open>partial_charges\<close>, on the reduced \<^verbatim>\<open>G_loc\<close>.\<close>

definition pc_corrections :: "sumk \<Rightarrow> kdata \<Rightarrow> block_gf list \<Rightarrow> block_gf list" where
  "pc_corrections self L G_loc =
     (let G_loc = (if symm_op self \<noteq> 0 then symmpar_symmetrize L G_loc else G_loc)
      in if use_rotations self then rotate_all L (n_shells self) int ''all'' G_loc else G_loc)"

section \<open>occupations\<close>

text \<open>
  Lines 427-438 on one worker.  The loop runs over \<^verbatim>\<open>range(self.n_k)\<close> on every worker; the
  array \<^verbatim>\<open>ikarray\<close> of line 433 is not used and \<^verbatim>\<open>mpi.slice_array\<close> is not called.
  \<^verbatim>\<open>
  occik[sp] = [numpy.zeros(...) for ik in range(self.n_k)]       # for sp in spn
  ikarray = numpy.array(range(self.n_k))
  for ik in range(self.n_k):
    G_latt = self.lattice_gf(ik=ik, mu=mu, with_Sigma=with_Sigma, with_dc=with_dc)
    for bname, gf in G_latt:
      occik[bname][ik][0, :, :] = gf.density().real
  \<close>
  \<open>occik bname (ik, i, j)\<close> is \<^verbatim>\<open>occik[bname][ik][0, i, j]\<close>.
\<close>

definition occ_k_step ::
  "kdata \<Rightarrow> nat \<Rightarrow> (string \<Rightarrow> nat \<times> nat \<times> nat \<Rightarrow> real) \<Rightarrow> (string \<Rightarrow> nat \<times> nat \<times> nat \<Rightarrow> real)" where
  "occ_k_step L ik occ =
     (let G_latt = lattice_gf L ik
      in for_blocks (spn L)
           (\<lambda>bname old. (\<lambda>(k, i, j). if k = ik then Re (density L (G_latt bname) (i, j)) else old (k, i, j)))
           occ)"

definition occ_worker :: "kdata \<Rightarrow> nat \<Rightarrow> string \<Rightarrow> nat \<times> nat \<times> nat \<Rightarrow> real" where
  "occ_worker L nk = fold (occ_k_step L) [0..<nk] (\<lambda>sp idx. 0)"

text \<open>
  Lines 440-441, \<^verbatim>\<open>occik[sp] = mpi.all_reduce(occik[sp])\<close>: every worker of \<open>slices\<close>
  contributes what its own loop has computed.
\<close>

definition occupations :: "kdata \<Rightarrow> nat \<Rightarrow> nat list list \<Rightarrow> string \<Rightarrow> nat \<times> nat \<times> nat \<Rightarrow> real" where
  "occupations L nk slices = (\<lambda>sp. all_reduce (map (\<lambda>ks. occ_worker L nk sp) slices))"

section \<open>gen\_Akw\<close>

text \<open>
  Lines 842-852: the indices of the mesh points inside the plot window,
  \<^verbatim>\<open>numpy.where((mesh_val > om_minplot) & (mesh_val < om_maxplot))\<close>.
\<close>

definition plot_window :: "freq_mesh \<Rightarrow> (real \<times> real) option \<Rightarrow> nat list" where
  "plot_window m plot_range =
     (let mv = mesh_val m;
          (om_minplot, om_maxplot) =
             (case plot_range of
                None \<Rightarrow> (hd mv - 1 / 1000, last mv + 1 / 1000)
              | Some (lo, hi) \<Rightarrow> (lo, hi))
      in filter (\<lambda>i. om_minplot < mv ! i \<and> mv ! i < om_maxplot) [0..<length mv])"

text \<open>
  Arrays whose first index is the k-point: \<^verbatim>\<open>A[ik] = row\<close> and \<^verbatim>\<open>A[ik] += c\<close>.
\<close>

definition set_row :: "nat \<Rightarrow> ('r \<Rightarrow> real) \<Rightarrow> (nat \<times> 'r \<Rightarrow> real) \<Rightarrow> (nat \<times> 'r \<Rightarrow> real)" where
  "set_row ik row A = (\<lambda>(k, r). if k = ik then row r else A (k, r))"

definition add_row :: "nat \<Rightarrow> real \<Rightarrow> (nat \<times> 'r \<Rightarrow> real) \<Rightarrow> (nat \<times> 'r \<Rightarrow> real)" where
  "add_row ik c A = (\<lambda>(k, r). if k = ik then A (k, r) + c else A (k, r))"

text \<open>
  Lines 906-907 and 928-929, the rows written for one k-point: the window's frequencies
  of \<^verbatim>\<open>-gf.data[...].imag.trace(axis1=1, axis2=2)/numpy.pi\<close> and of
  \<^verbatim>\<open>-gf.data[...,:,:].imag/numpy.pi\<close>.
\<close>

definition akw_row :: "nat list \<Rightarrow> nat \<Rightarrow> gf \<Rightarrow> nat \<Rightarrow> real" where
  "akw_row win n gf = (\<lambda>iw. if iw < length win then - imag_trace n gf (win ! iw) / pi else 0)"

definition pakw_row :: "nat list \<Rightarrow> gf \<Rightarrow> nat \<times> nat \<times> nat \<Rightarrow> real" where
  "pakw_row win gf = (\<lambda>(iw, i, j). if iw < length win then - Im (gf (win ! iw, i, j)) / pi else 0)"

text \<open>
  One pass of the loop of lines 902-931 for the k-point \<open>ik\<close>, on the worker's \<^verbatim>\<open>Akw\<close>,
  \<^verbatim>\<open>pAkw_orb\<close> and \<^verbatim>\<open>G_loc\<close>:
  \<^verbatim>\<open>
  G_latt_w = self.lattice_gf(ik=ik, ...)
  for bname, gf in G_latt_w:
      Akw[bname][ik] = -gf.data[numpy.where(...)].imag.trace(axis1=1, axis2=2)/numpy.pi
      Akw[bname][ik] += ik * plot_shift
  if (proj_type!=None):
      for ish in range(n_shells):
          G_loc[ish].zero()
          tmp = G_loc[ish].copy()
          tmp.zero()
          tmp << self.proj_type_G_loc(G_latt_w, tmp, ik, ish, proj_type)
          G_loc[ish] += tmp
      if (self.use_rotations):
        for ish in range(n_shells):
          jsh=shell_list[ish]
          for bname, gf in G_loc[ish]:
              G_loc[ish][bname] << self.rotloc(jsh, gf, direction='toLocal', shells=shells_type)
      for ish in range(n_shells):
          for bname, gf in G_loc[ish]:
              pAkw_orb[ish][bname][ik,:,:,:] = -gf.data[numpy.where(...),:,:].imag/numpy.pi
              pAkw_orb[ish][sp][ik] += ik * plot_shift
  \<close>
  In the last line \<^verbatim>\<open>sp\<close> is not the loop variable \<^verbatim>\<open>bname\<close>: it is the variable of the
  loop \<^verbatim>\<open>for sp in spn\<close> of line 891, which has ended, so it holds the last block name.
  When \<^verbatim>\<open>proj_type\<close> is not \<^verbatim>\<open>None\<close> and the set-up of lines 860-898 has not run (an empty
  tag), \<^verbatim>\<open>range(n_shells)\<close> reads an unbound variable.
\<close>

type_synonym akw_state =
  "(string \<Rightarrow> nat \<times> nat \<Rightarrow> real) \<times> (string \<Rightarrow> nat \<times> nat \<times> nat \<times> nat \<Rightarrow> real) list \<times> block_gf list"

text \<open>Lines 905-909: the total spectral function of the k-point, with its offset.\<close>

definition akw_total ::
  "kdata \<Rightarrow> nat list \<Rightarrow> real \<Rightarrow> nat \<Rightarrow> block_gf
     \<Rightarrow> (string \<Rightarrow> nat \<times> nat \<Rightarrow> real) \<Rightarrow> (string \<Rightarrow> nat \<times> nat \<Rightarrow> real)" where
  "akw_total L win plot_shift ik G_latt_w Akw =
     for_blocks (spn L)
       (\<lambda>bname A. add_row ik (real ik * plot_shift)
                     (set_row ik (akw_row win (n_orbitals L ik bname) (G_latt_w bname)) A))
       Akw"

text \<open>Lines 913-918: every \<^verbatim>\<open>G_loc[ish]\<close> is zeroed and receives the k-point's projection.\<close>

definition akw_project ::
  "kdata \<Rightarrow> string option \<Rightarrow> nat \<Rightarrow> nat \<Rightarrow> block_gf \<Rightarrow> block_gf list \<Rightarrow> block_gf list" where
  "akw_project L proj_type n ik G_latt_w G_loc =
     for_shells n
       (\<lambda>ish g. bgf_add bgf_zero (proj_type_G_loc L G_latt_w bgf_zero ik ish proj_type))
       G_loc"

text \<open>
  Lines 927-931 for one shell, on the shell's dictionary \<^verbatim>\<open>pAkw_orb[ish]\<close>: the loop
  variable is \<^verbatim>\<open>bname\<close>, the offset goes to the entry of \<^verbatim>\<open>sp\<close>.
\<close>

definition akw_extract_shell ::
  "kdata \<Rightarrow> nat list \<Rightarrow> real \<Rightarrow> nat \<Rightarrow> string \<Rightarrow> block_gf
     \<Rightarrow> (string \<Rightarrow> nat \<times> nat \<times> nat \<times> nat \<Rightarrow> real)
     \<Rightarrow> (string \<Rightarrow> nat \<times> nat \<times> nat \<times> nat \<Rightarrow> real)" where
  "akw_extract_shell L win plot_shift ik sp g P =
     fold (\<lambda>bname P'.
             let P1 = P'(bname := set_row ik (pakw_row win (g bname)) (P' bname))
             in P1(sp := add_row ik (real ik * plot_shift) (P1 sp)))
          (spn L) P"

definition akw_k_step ::
  "sumk \<Rightarrow> kdata \<Rightarrow> string option \<Rightarrow> akw_setup option \<Rightarrow> nat list \<Rightarrow> real \<Rightarrow> nat
     \<Rightarrow> akw_state \<Rightarrow> error + akw_state" where
  "akw_k_step self L proj_type setup win plot_shift ik st =
     (let (Akw, pAkw_orb, G_loc) = st;
          G_latt_w = lattice_gf L ik;
          Akw = akw_total L win plot_shift ik G_latt_w Akw
      in if proj_type = None then Inr (Akw, pAkw_orb, G_loc)
         else
          (case setup of
             None \<Rightarrow> Inl (NameError ''n_shells'')
           | Some su \<Rightarrow>
               let n = as_n_shells su;
                   G_loc = akw_project L proj_type n ik G_latt_w G_loc;
                   G_loc = (if use_rotations self
                            then rotate_all L n (\<lambda>ish. as_shell_list su ! ish) (as_shells_type su) G_loc
                            else G_loc);
                   sp = last (spn L);
                   pAkw_orb = for_shells n
                                (\<lambda>ish P. akw_extract_shell L win plot_shift ik sp (G_loc ! ish) P)
                                pAkw_orb
               in Inr (Akw, pAkw_orb, G_loc)))"

text \<open>The worker's loop over its k-points stops at the first exception.\<close>

fun akw_loop ::
  "sumk \<Rightarrow> kdata \<Rightarrow> string option \<Rightarrow> akw_setup option \<Rightarrow> nat list \<Rightarrow> real \<Rightarrow> nat list
     \<Rightarrow> akw_state \<Rightarrow> error + akw_state" where
  "akw_loop self L proj_type setup win plot_shift [] st = Inr st"
| "akw_loop self L proj_type setup win plot_shift (ik # ks) st =
     (case akw_k_step self L proj_type setup win plot_shift ik st of
        Inl e \<Rightarrow> Inl e
      | Inr st' \<Rightarrow> akw_loop self L proj_type setup win plot_shift ks st')"

text \<open>
  \<^verbatim>\<open>gen_Akw\<close> on one worker, lines 842-931: the window, the set-up of the projected
  quantities, the arrays of lines 856-898 filled with zeros, and the loop over the
  worker's k-points \<open>ks\<close>.
\<close>

definition akw_init :: "akw_setup option \<Rightarrow> akw_state" where
  "akw_init setup =
     (let n = (case setup of None \<Rightarrow> 0 | Some su \<Rightarrow> as_n_shells su)
      in (\<lambda>sp idx. 0, replicate n (\<lambda>sp idx. 0), replicate n bgf_zero))"

definition gen_Akw_worker ::
  "sumk \<Rightarrow> kdata \<Rightarrow> freq_mesh \<Rightarrow> real \<Rightarrow> (real \<times> real) option \<Rightarrow> int list option \<Rightarrow> string option
     \<Rightarrow> nat list \<Rightarrow> error + akw_state" where
  "gen_Akw_worker self L mesh plot_shift plot_range shell_list proj_type ks =
     and_then (mesh_bounds mesh) (\<lambda>_.
     and_then (gen_Akw_setup self proj_type shell_list) (\<lambda>setup.
       akw_loop self L proj_type setup (plot_window mesh plot_range) plot_shift ks (akw_init setup)))"

section \<open>The rotation into the local frame\<close>

text \<open>
  Modelled from the spec: \<^verbatim>\<open>rotloc\<close>, a method of the base class whose code is in
  \<^verbatim>\<open>sumk_dft.py\<close>, not in the files at hand.  The spec (4.4, step 2) says: for every shell
  and spin block, apply the shell's unitary rotation (with its time-reversal sign) to the
  LocalGreenFunction; this is a similarity transform in orbital space.  For a shell of \<open>n\<close>
  orbitals with rotation matrix \<open>U\<close> the transform is \<open>U\<^sup>\<dagger> G U\<close> at every frequency; with the
  time-reversal sign set it acts on the transposed function with the conjugated matrix,
  \<open>U\<^sup>T G\<^sup>T U\<^sup>*\<close>.
\<close>

definition rotloc_toLocal :: "nat \<Rightarrow> (nat \<times> nat \<Rightarrow> complex) \<Rightarrow> bool \<Rightarrow> gf \<Rightarrow> gf" where
  "rotloc_toLocal n U time_inv gf =
     (if time_inv then
        (\<lambda>(iom, i, j). \<Sum>a\<leftarrow>[0..<n]. \<Sum>b\<leftarrow>[0..<n]. U (a, i) * gf (iom, b, a) * cnj (U (b, j)))
      else
        (\<lambda>(iom, i, j). \<Sum>a\<leftarrow>[0..<n]. \<Sum>b\<leftarrow>[0..<n]. cnj (U (a, i)) * gf (iom, a, b) * U (b, j)))"

text \<open>\<open>U\<close> is unitary on \<open>n\<close> orbitals: \<open>U U\<^sup>\<dagger> = 1\<close>.\<close>

definition unitary :: "nat \<Rightarrow> (nat \<times> nat \<Rightarrow> complex) \<Rightarrow> bool" where
  "unitary n U =
     list_all (\<lambda>a. list_all (\<lambda>b. (\<Sum>i\<leftarrow>[0..<n]. U (a, i) * cnj (U (b, i))) = (if a = b then 1 else 0))
                             [0..<n])
              [0..<n]"

section \<open>The order of the steps\<close>

text \<open>
  What a worker does, in order: the calls of \<^verbatim>\<open>lattice_gf\<close> for a k-point, the projection of
  a k-point's lattice Green's function onto a shell, the barrier, the reductions, and the
  corrections (the symmetrization of \<^verbatim>\<open>G_loc\<close> and the rotation of a shell's Green's
  function).
\<close>

datatype event =
    Lattice nat
  | Project nat nat
  | Barrier
  | Reduce string
  | Symmetrize
  | Rotate nat

fun is_sweep :: "event \<Rightarrow> bool" where
  "is_sweep (Lattice ik) = True"
| "is_sweep (Project ik ish) = True"
| "is_sweep e = False"

fun is_reduce :: "event \<Rightarrow> bool" where
  "is_reduce (Reduce x) = True"
| "is_reduce e = False"

fun is_rotate :: "event \<Rightarrow> bool" where
  "is_rotate (Rotate ish) = True"
| "is_rotate e = False"

fun is_correction :: "event \<Rightarrow> bool" where
  "is_correction Symmetrize = True"
| "is_correction (Rotate ish) = True"
| "is_correction e = False"

text \<open>
  The loop over the worker's k-points \<open>ks\<close> in \<^verbatim>\<open>density_of_states\<close> (lines 210-227) and
  in \<^verbatim>\<open>partial_charges\<close> (lines 994-1004): per k-point the lattice Green's function and,
  when \<open>projecting\<close>, its projection onto every shell.
\<close>

definition sweep_events :: "bool \<Rightarrow> nat \<Rightarrow> nat list \<Rightarrow> event list" where
  "sweep_events projecting n_sh ks =
     concat (map (\<lambda>ik. Lattice ik # (if projecting then map (Project ik) [0..<n_sh] else [])) ks)"

text \<open>\<^verbatim>\<open>density_of_states\<close>, lines 209-248, on a worker with the k-points \<open>ks\<close>.\<close>

definition dos_events :: "sumk \<Rightarrow> string option \<Rightarrow> nat \<Rightarrow> nat list \<Rightarrow> event list" where
  "dos_events self proj_type n_sh ks =
     sweep_events (proj_type \<noteq> None) n_sh ks
     @ [Barrier, Reduce ''DOS'']
     @ (if proj_type \<noteq> None then
          Reduce ''G_loc''
          # (if proj_type \<noteq> Some ''vasp'' \<and> proj_type \<noteq> Some ''elk'' then
               (if symm_op self \<noteq> 0 then [Symmetrize] else [])
               @ (if use_rotations self then map Rotate [0..<n_sh] else [])
             else [])
        else [])"

text \<open>\<^verbatim>\<open>partial_charges\<close>, lines 993-1018.\<close>

definition pc_events :: "sumk \<Rightarrow> nat list \<Rightarrow> event list" where
  "pc_events self ks =
     sweep_events True (n_shells self) ks
     @ [Reduce ''G_loc'', Barrier]
     @ (if symm_op self \<noteq> 0 then [Symmetrize] else [])
     @ (if use_rotations self then map Rotate [0..<n_shells self] else [])"

text \<open>
  \<^verbatim>\<open>gen_Akw\<close>, lines 901-941, after a set-up for \<open>n_sh\<close> shells: the rotation stands inside
  the loop over the k-points (lines 920-925), and nothing is symmetrized.
\<close>

definition akw_sweep_events :: "sumk \<Rightarrow> string option \<Rightarrow> nat \<Rightarrow> nat list \<Rightarrow> event list" where
  "akw_sweep_events self proj_type n_sh ks =
     concat (map (\<lambda>ik. Lattice ik
                       # (if proj_type \<noteq> None then
                            map (Project ik) [0..<n_sh]
                            @ (if use_rotations self then map Rotate [0..<n_sh] else [])
                          else [])) ks)"

definition akw_events :: "sumk \<Rightarrow> string option \<Rightarrow> nat \<Rightarrow> nat list \<Rightarrow> event list" where
  "akw_events self proj_type n_sh ks =
     akw_sweep_events self proj_type n_sh ks
     @ [Barrier, Reduce ''Akw'']
     @ (if truthy proj_type then [Reduce ''pAkw_orb''] else [])
     @ [Barrier]"

text \<open>
  Every correction comes after the whole sweep and after every reduction: from the first
  correction on there is no step of the sweep and no reduction.
\<close>

definition corrections_after_reduction :: "event list \<Rightarrow> bool" where
  "corrections_after_reduction tr =
     list_all (\<lambda>e. \<not> is_sweep e \<and> \<not> is_reduce e) (dropWhile (\<lambda>e. \<not> is_correction e) tr)"

text \<open>No symmetrization comes after a rotation.\<close>

definition symmetrize_before_rotate :: "event list \<Rightarrow> bool" where
  "symmetrize_before_rotate tr =
     list_all (\<lambda>e. e \<noteq> Symmetrize) (dropWhile (\<lambda>e. \<not> is_rotate e) tr)"

text \<open>A symmetrization has taken place before the first rotation, if there is a rotation.\<close>

definition rotates_symmetrized :: "event list \<Rightarrow> bool" where
  "rotates_symmetrized tr =
     (list_ex is_rotate tr \<longrightarrow> Symmetrize \<in> set (takeWhile (\<lambda>e. \<not> is_rotate e) tr))"

section \<open>Example data\<close>

text \<open>Concrete meshes and a concrete SumkDFT object on which the routines are run below.\<close>

definition mesh_re :: freq_mesh where
  "mesh_re = \<lparr>kind = MeshReFreq, w_min = -1, w_max = 1, n_points = 3\<rparr>"

definition mesh_arg :: freq_mesh where
  "mesh_arg = \<lparr>kind = MeshReFreq, w_min = -2, w_max = 2, n_points = 5\<rparr>"

definition sumk_ex :: sumk where
  "sumk_ex = \<lparr>dft_code = ''wien2k'', Sigma_imp = [mesh_re],
     self_mesh = None, values_not_read = [],
     read_input_from_hdf = (\<lambda>g ts. (True, [])),
     misc_data = ''dft_misc_input'', parproj_data = ''dft_parproj_input'',
     bands_data = ''dft_bands_input'', cont_data = ''dft_contours_input'',
     symm_op = 0, use_rotations = False, n_k = 2, n_corr_shells = 1, n_shells = 2,
     corr_shells = [3], shells = [3, 5]\<rparr>"

text \<open>
  The same object over an archive whose \<^verbatim>\<open>dft_misc_input\<close> subgroup holds none of the
  entries asked of it.
\<close>

definition sumk_no_occik :: sumk where
  "sumk_no_occik =
     sumk_ex\<lparr>read_input_from_hdf :=
       (\<lambda>subgrp things. (True, if subgrp = ''dft_misc_input'' then things else []))\<rparr>"

text \<open>
  An object on which both corrections are configured, and data for a sweep: two spin
  blocks, two orbitals per k-point, lattice Green's functions \<open>(ik + 1) (1 - \<i>)\<close> on the
  diagonal, and a \<open>downfold\<close> that multiplies by the number of the partial projector.
\<close>

definition sumk_corr :: sumk where
  "sumk_corr = sumk_ex\<lparr>symm_op := 1, use_rotations := True\<rparr>"

definition kdata_ex :: kdata where
  "kdata_ex =
     \<lparr>spn = [''up'', ''down''],
      bz_weights = (\<lambda>ik. 1 / 2),
      lattice_gf = (\<lambda>ik bname (iom, i, j). if i = j then Complex (real (ik + 1)) (- real (ik + 1)) else 0),
      n_orbitals = (\<lambda>ik bname. 2),
      occik = (\<lambda>bname ik ij. 1),
      downfold = (\<lambda>ik ish bname g t sh ir idx.
                    g idx * of_nat (case ir of None \<Rightarrow> 1 | Some r \<Rightarrow> r + 1)),
      n_parproj = (\<lambda>ish. 2),
      rotloc = (\<lambda>jsh gf sh. gf),
      symmcorr_symmetrize = (\<lambda>G. G),
      symmpar_symmetrize = (\<lambda>G. G),
      density = (\<lambda>gf (i, j). gf (0, i, j)),
      csc_dim = 1\<rparr>"

text \<open>A unitary matrix on two orbitals and a Green's function to rotate.\<close>

definition U_ex :: "nat \<times> nat \<Rightarrow> complex" where
  "U_ex = (\<lambda>(a, b). if a = b then 0 else \<i>)"

definition g_ex :: gf where
  "g_ex = (\<lambda>(iom, i, j). Complex (real i + 1) (real j + 2))"

section \<open>Properties of the validation\<close>

lemma and_then_simps [simp]:
  "and_then (Inl e) f = Inl e" "and_then (Inr v) f = f v"
  by (simp_all add: and_then_def)

lemma and_then_Inr_iff:
  "and_then r f = Inr y \<longleftrightarrow> (\<exists>v. r = Inr v \<and> f v = Inr y)"
  by (cases r) simp_all

lemma mesh_val_re: "mesh_val mesh_re = [-1, 0, 1]"
  by (simp add: mesh_val_def mesh_re_def upt_rec)

lemma mesh_val_arg: "mesh_val mesh_arg = [-2, -1, 0, 1, 2]"
  by (simp add: mesh_val_def mesh_arg_def upt_rec)

subsection \<open>The mesh that is used\<close>

lemma select_mesh_with_Sigma:
  "select_mesh self True mesh b = select_mesh self True mesh' b"
  by (simp add: select_mesh_def)

lemma select_mesh_True_Inr:
  "select_mesh self True mesh b = Inr (m, br) \<Longrightarrow>
     Sigma_imp self \<noteq> [] \<and> m = hd (Sigma_imp self) \<and> kind m = MeshReFreq \<and> br = b"
  by (auto simp: select_mesh_def split: list.splits if_splits)

lemma select_mesh_False_Inr:
  "select_mesh self False (Some cm) b = Inr (m, br) \<Longrightarrow> m = cm \<and> kind m = MeshReFreq"
  by (auto simp: select_mesh_def split: if_splits)

lemma dos_preamble_Inr:
  "dos_preamble self b mesh ws pt occ = Inr r \<Longrightarrow> select_mesh self ws mesh b = Inr r"
  by (auto simp: dos_preamble_def and_then_Inr_iff split: prod.splits if_splits)

lemma contours_preamble_Inr:
  "contours_preamble self b mesh FS ws pt = Inr r \<Longrightarrow> select_mesh self ws mesh b = Inr r"
  by (auto simp: contours_preamble_def and_then_Inr_iff split: prod.splits if_splits)

lemma spaghettis_preamble_Inr:
  "spaghettis_preamble self b mesh ws pt = Inr r \<Longrightarrow> select_mesh self ws mesh b = Inr r"
  by (auto simp: spaghettis_preamble_def and_then_Inr_iff split: prod.splits if_splits)

text \<open>
  C10.  In \<^verbatim>\<open>density_of_states\<close>, \<^verbatim>\<open>spectral_contours\<close> and \<^verbatim>\<open>spaghettis\<close> called with
  \<^verbatim>\<open>with_Sigma=True\<close>, the outcome of everything before the sweep does not depend on the
  \<^verbatim>\<open>mesh\<close> argument, and when the routine goes on to its sweep the mesh it passes on is the
  real-frequency mesh of the stored self-energy \<^verbatim>\<open>self.Sigma_imp[0]\<close>.  With
  \<^verbatim>\<open>with_Sigma=False\<close> a mesh given by the caller is the mesh passed on.
\<close>

theorem with_Sigma_mesh_is_Sigma_mesh:
  "dos_preamble self b mesh True pt occ = dos_preamble self b mesh' True pt occ
   \<and> contours_preamble self b mesh FS True pt = contours_preamble self b mesh' FS True pt
   \<and> spaghettis_preamble self b mesh True pt = spaghettis_preamble self b mesh' True pt
   \<and> (dos_preamble self b mesh True pt occ = Inr (m, br)
        \<longrightarrow> Sigma_imp self \<noteq> [] \<and> m = hd (Sigma_imp self) \<and> kind m = MeshReFreq)
   \<and> (contours_preamble self b mesh FS True pt = Inr (m, br)
        \<longrightarrow> Sigma_imp self \<noteq> [] \<and> m = hd (Sigma_imp self) \<and> kind m = MeshReFreq)
   \<and> (spaghettis_preamble self b mesh True pt = Inr (m, br)
        \<longrightarrow> Sigma_imp self \<noteq> [] \<and> m = hd (Sigma_imp self) \<and> kind m = MeshReFreq)
   \<and> (dos_preamble self b (Some cm) False pt occ = Inr (m, br) \<longrightarrow> m = cm)
   \<and> (contours_preamble self b (Some cm) FS False pt = Inr (m, br) \<longrightarrow> m = cm)
   \<and> (spaghettis_preamble self b (Some cm) False pt = Inr (m, br) \<longrightarrow> m = cm)"
proof -
  have 1: "dos_preamble self b mesh True pt occ = dos_preamble self b mesh' True pt occ"
    by (simp add: dos_preamble_def select_mesh_with_Sigma [of self mesh b mesh'])
  have 2: "contours_preamble self b mesh FS True pt = contours_preamble self b mesh' FS True pt"
    by (simp add: contours_preamble_def select_mesh_with_Sigma [of self mesh b mesh'])
  have 3: "spaghettis_preamble self b mesh True pt = spaghettis_preamble self b mesh' True pt"
    by (simp add: spaghettis_preamble_def select_mesh_with_Sigma [of self mesh b mesh'])
  show ?thesis
    using 1 2 3
    by (blast dest: dos_preamble_Inr contours_preamble_Inr spaghettis_preamble_Inr
          select_mesh_True_Inr select_mesh_False_Inr)
qed

lemma dos_preamble_ex_True:
  "dos_preamble sumk_ex None (Some mesh_arg) True None False = Inr (mesh_re, None)"
  by (simp add: dos_preamble_def dos_check_proj_type_def select_mesh_def sumk_ex_def
      mesh_bounds_def mesh_val_re) (simp add: mesh_re_def)

lemma contours_preamble_ex_True:
  "contours_preamble sumk_ex None (Some mesh_arg) True True None = Inr (mesh_re, None)"
  by (simp add: contours_preamble_def contours_check_proj_type_def read_required_def
      select_mesh_def sumk_ex_def mesh_bounds_def mesh_val_re) (simp add: mesh_re_def)

lemma spaghettis_preamble_ex_True:
  "spaghettis_preamble sumk_ex None (Some mesh_arg) True None = Inr (mesh_re, None)"
  by (simp add: spaghettis_preamble_def spaghettis_check_proj_type_def read_required_def
      select_mesh_def sumk_ex_def mesh_bounds_def mesh_val_re) (simp add: mesh_re_def)

lemma dos_preamble_ex_False:
  "dos_preamble sumk_ex None (Some mesh_arg) False None False = Inr (mesh_arg, Some (1 / 1000))"
  by (simp add: dos_preamble_def dos_check_proj_type_def select_mesh_def sumk_ex_def
      mesh_bounds_def mesh_val_arg default_broadening_def) (simp add: mesh_arg_def)

lemma contours_preamble_ex_False:
  "contours_preamble sumk_ex None (Some mesh_arg) True False None = Inr (mesh_arg, Some (1 / 1000))"
  by (simp add: contours_preamble_def contours_check_proj_type_def read_required_def
      select_mesh_def sumk_ex_def mesh_bounds_def mesh_val_arg default_broadening_def)
     (simp add: mesh_arg_def)

lemma spaghettis_preamble_ex_False:
  "spaghettis_preamble sumk_ex None (Some mesh_arg) False None = Inr (mesh_arg, Some (1 / 1000))"
  by (simp add: spaghettis_preamble_def spaghettis_check_proj_type_def read_required_def
      select_mesh_def sumk_ex_def mesh_bounds_def mesh_val_arg default_broadening_def)
     (simp add: mesh_arg_def)

theorem with_Sigma_mesh_is_Sigma_mesh_witness:
  "dos_preamble sumk_ex None (Some mesh_arg) True None False = Inr (mesh_re, None)
   \<and> contours_preamble sumk_ex None (Some mesh_arg) True True None = Inr (mesh_re, None)
   \<and> spaghettis_preamble sumk_ex None (Some mesh_arg) True None = Inr (mesh_re, None)
   \<and> dos_preamble sumk_ex None (Some mesh_arg) True None False
       = dos_preamble sumk_ex None None True None False
   \<and> mesh_re = hd (Sigma_imp sumk_ex) \<and> kind mesh_re = MeshReFreq \<and> mesh_arg \<noteq> mesh_re
   \<and> dos_preamble sumk_ex None (Some mesh_arg) False None False = Inr (mesh_arg, Some (1 / 1000))
   \<and> contours_preamble sumk_ex None (Some mesh_arg) True False None = Inr (mesh_arg, Some (1 / 1000))
   \<and> spaghettis_preamble sumk_ex None (Some mesh_arg) False None = Inr (mesh_arg, Some (1 / 1000))"
proof -
  note T = with_Sigma_mesh_is_Sigma_mesh
             [where self = sumk_ex and b = None and mesh = "Some mesh_arg" and pt = None
                and occ = False and mesh' = None and FS = True and m = mesh_re and br = None
                and cm = mesh_arg]
  have ne: "mesh_arg \<noteq> mesh_re"
    by (simp add: mesh_arg_def mesh_re_def)
  have eq: "dos_preamble sumk_ex None (Some mesh_arg) True None False
              = dos_preamble sumk_ex None None True None False"
    using T by (rule conjunct1)
  have used: "mesh_re = hd (Sigma_imp sumk_ex) \<and> kind mesh_re = MeshReFreq"
    using T dos_preamble_ex_True by blast
  show ?thesis
    using eq used ne dos_preamble_ex_True contours_preamble_ex_True spaghettis_preamble_ex_True
      dos_preamble_ex_False contours_preamble_ex_False spaghettis_preamble_ex_False
    by (intro conjI) (erule conjunct1 conjunct2 | assumption)+
qed

subsection \<open>The scheme tag\<close>

lemma dos_check_proj_type_accepts:
  "dos_check_proj_type self (Some p) = Inr () \<longleftrightarrow>
     p \<in> {''wann'', ''vasp'', ''wien2k''} \<and> (p = ''wann'' \<or> p = dft_code self)"
  by (auto simp: dos_check_proj_type_def in_tuple_def)

lemma spaghettis_check_proj_type_accepts:
  "spaghettis_check_proj_type self (Some p) = Inr () \<longleftrightarrow>
     p \<in> {''wann'', ''wien2k''} \<and> (p = ''wann'' \<or> p = dft_code self)"
  by (auto simp: spaghettis_check_proj_type_def in_tuple_def)

lemma contours_check_proj_type_accepts:
  "contours_check_proj_type (Some p) = Inr () \<longleftrightarrow> sublist p ''wann''"
  by (simp add: contours_check_proj_type_def in_str_def)

lemma dos_preamble_rejects:
  "dos_check_proj_type self pt = Inl e \<Longrightarrow> dos_preamble self b mesh ws pt occ = Inl e"
  by (simp add: dos_preamble_def)

lemma spaghettis_preamble_rejects:
  "spaghettis_check_proj_type self pt = Inl e \<Longrightarrow> spaghettis_preamble self b mesh ws pt = Inl e"
  by (simp add: spaghettis_preamble_def)

text \<open>
  C5.  \<^verbatim>\<open>spectral_contours\<close> does not reject every tag outside its enumeration: the test
  \<^verbatim>\<open>proj_type in ('wann')\<close> is a substring test, so \<^verbatim>\<open>'w'\<close> and the empty string pass
  it.  For \<^verbatim>\<open>'w'\<close> everything before \<^verbatim>\<open>gen_Akw\<close> succeeds and \<^verbatim>\<open>gen_Akw\<close> then stops on
  the unbound local \<^verbatim>\<open>n_shells\<close>, not on the assertion; for the empty string \<^verbatim>\<open>gen_Akw\<close>
  sets nothing up and goes on to its sweep.
\<close>

theorem contours_accepts_tag_outside_enumeration:
  "contours_check_proj_type (Some ''w'') = Inr ()
   \<and> contours_preamble sumk_ex None None True True (Some ''w'') = Inr (mesh_re, None)
   \<and> gen_Akw_setup sumk_ex (Some ''w'') None = Inl (NameError ''n_shells'')
   \<and> contours_check_proj_type (Some '''') = Inr ()
   \<and> gen_Akw_setup sumk_ex (Some '''') None = Inr None"
proof -
  have c: "contours_check_proj_type (Some ''w'') = Inr ()"
    by (simp add: contours_check_proj_type_def in_str_def)
  have p: "contours_preamble sumk_ex None None True True (Some ''w'') = Inr (mesh_re, None)"
    by (simp add: contours_preamble_def c read_required_def
        select_mesh_def sumk_ex_def mesh_bounds_def mesh_val_re) (simp add: mesh_re_def)
  have g: "gen_Akw_setup sumk_ex (Some ''w'') None = Inl (NameError ''n_shells'')"
    by (simp add: gen_Akw_setup_def scheme_shells_def)
  have e: "contours_check_proj_type (Some '''') = Inr ()"
    by (simp add: contours_check_proj_type_def in_str_def)
  have h: "gen_Akw_setup sumk_ex (Some '''') None = Inr None"
    by (simp add: gen_Akw_setup_def)
  show ?thesis using c p g e h by simp
qed

subsection \<open>Missing entries\<close>

lemma read_required_eq:
  "read_required self g ts =
     (if snd (read_input_from_hdf self g ts) = [] then Inr ()
      else Inl (ValueError missing_msg (values_not_read self)))"
  by (simp add: read_required_def split: prod.splits)

text \<open>
  C6.  With \<^verbatim>\<open>dosocc=True\<close> and an archive without \<^verbatim>\<open>occik\<close>, \<^verbatim>\<open>density_of_states\<close>
  stops before its sweep with a ValueError, but the list the error carries is
  \<^verbatim>\<open>self.values_not_read\<close> (here empty), not the list \<^verbatim>\<open>['occik']\<close> of what was absent.
\<close>

theorem missing_occik_error_names_nothing:
  "snd (read_input_from_hdf sumk_no_occik (misc_data sumk_no_occik) [''occik'']) = [''occik'']
   \<and> dos_preamble sumk_no_occik None None True None True = Inl (ValueError missing_msg [])"
proof -
  have a: "snd (read_input_from_hdf sumk_no_occik (misc_data sumk_no_occik) [''occik'']) = [''occik'']"
    by (simp add: sumk_no_occik_def sumk_ex_def)
  have r: "read_required sumk_no_occik (misc_data sumk_no_occik) [''occik'']
             = Inl (ValueError missing_msg [])"
    by (simp add: read_required_eq a) (simp add: sumk_no_occik_def sumk_ex_def)
  have s: "select_mesh sumk_no_occik True None None = Inr (mesh_re, None)"
    by (simp add: select_mesh_def sumk_no_occik_def sumk_ex_def) (simp add: mesh_re_def)
  have "dos_preamble sumk_no_occik None None True None True = Inl (ValueError missing_msg [])"
    by (simp add: dos_preamble_def dos_check_proj_type_def s mesh_bounds_def mesh_val_re r)
  with a show ?thesis by simp
qed

subsection \<open>The shell list\<close>

lemma check_shell_list_accepts:
  "check_shell_list (Some n) sl = Inr () \<longleftrightarrow> (\<forall>ish \<in> set sl. 0 \<le> ish \<and> ish \<le> int n)"
  by (induction sl) auto

lemma check_shell_list_rejects:
  "check_shell_list (Some n) sl \<noteq> Inr () \<Longrightarrow>
     check_shell_list (Some n) sl
       = Inl (IOError ''indices in shell_list input do not correspond to existing self.shells indices'')"
  by (induction sl) (auto split: if_splits)

text \<open>
  C7.  The test \<^verbatim>\<open>ish > n_shells\<close> of \<^verbatim>\<open>gen_Akw\<close> lets the index \<open>n_shells\<close> itself through:
  with one correlated shell (valid index 0 only) the shell list \<^verbatim>\<open>[1]\<close> raises nothing and
  the set-up for the sweep is completed.
\<close>

theorem shell_index_n_shells_is_accepted:
  "n_corr_shells sumk_ex = 1
   \<and> check_shell_list (Some (n_corr_shells sumk_ex)) [1] = Inr ()
   \<and> gen_Akw_setup sumk_ex (Some ''wann'') (Some [1])
       = Inr (Some \<lparr>as_n_shells = 1, as_shell_list = [1], as_dims = [3], as_shells_type = ''corr''\<rparr>)"
  by (simp add: gen_Akw_setup_def scheme_shells_def sumk_ex_def)

end
